theory Spec2Isabelle
  imports Complex_Main
begin

section \<open>The chat client of \<open>src/src/App.js\<close>\<close>

text \<open>
  The live component is the second \<open>App\<close> function of \<open>App.js\<close> (lines 333 to 679; the
  first 330 lines are an older version, commented out). Its logic is five React state
  cells and the handlers \<open>handleChatResponse\<close>, \<open>handleImagePrediction\<close>,
  \<open>handleSendMessage\<close>, \<open>handleImageUpload\<close> and \<open>handlePromptClick\<close>.
\<close>

subsection \<open>Data\<close>

text \<open>
  An element of \<open>chatHistory\<close> is one of the two object shapes the handlers build:
  \<open>{ type: 'text', user, bot }\<close> and \<open>{ type: 'image', imageUrl, bot }\<close>.
\<close>

datatype entry =
    TextEntry (user: string) (bot: string)
  | ImageEntry (imageUrl: string) (bot: string)

text \<open>The selected \<open>File\<close> object is opaque to the handlers: only its identity matters.\<close>

datatype js_file = File string

text \<open>
  The value \<open>data\<close> that \<open>res.json()\<close> resolves to, seen through the four properties
  the handlers read. A property is absent (\<open>undefined\<close> in JavaScript, here \<open>None\<close>) or
  has the type of the wire format: \<open>response\<close>, \<open>prediction\<close> and \<open>error\<close> are strings,
  \<open>confidence\<close> is a number. A JavaScript number read from JSON is a double; the finite
  doubles are rationals, and every statement below is made for all rationals.
  A JSON value that is not an object and not \<open>null\<close> (a number, a string, an array)
  has none of the four properties: it is the payload with every field \<open>None\<close>.
\<close>

record payload =
  response :: "string option"
  prediction :: "string option"
  error :: "string option"
  confidence :: "rat option"

text \<open>
  What \<open>await fetch(...)\<close> followed by \<open>await res.json()\<close> can do: \<open>fetch\<close> rejects (the
  request did not complete), or it resolves to a response with some HTTP status, whose
  body \<open>res.json()\<close> fails to parse (it rejects), parses to \<open>null\<close>, or parses to another
  value. \<open>fetch\<close> resolves for every status, and neither handler reads \<open>res.status\<close> or
  \<open>res.ok\<close>.
\<close>

datatype body = NotJson | JsonNull | JsonValue payload

datatype fetch_result = Rejected | Resolved (status: nat) (body: body)

datatype request = ChatRequest string "entry list" | ImageRequest js_file

text \<open>
  The five \<open>useState\<close> cells, and two logs of what the handlers did to the outside
  world: the requests passed to \<open>fetch\<close> and the texts passed to \<open>alert\<close>.
\<close>

record app =
  message :: string
  image_file :: "js_file option"
  chatHistory :: "entry list"
  result :: string
  imageResult :: string
  requests :: "request list"
  alerts :: "string list"

definition initial :: app where
  "initial = \<lparr>message = [], image_file = None, chatHistory = [], result = [],
     imageResult = [], requests = [], alerts = []\<rparr>"

subsection \<open>JavaScript primitives the handlers use\<close>

text \<open>
  \<open>if (v)\<close> on a property that is absent or a string: \<open>undefined\<close> and the empty string
  are falsy, every other string is truthy.
\<close>

definition truthy :: "string option \<Rightarrow> bool" where
  "truthy v = (case v of None \<Rightarrow> False | Some s \<Rightarrow> s \<noteq> [])"

text \<open>\<open>v + `...`\<close> on such a property: \<open>undefined\<close> is converted to the text \<open>undefined\<close>.\<close>

definition to_str :: "string option \<Rightarrow> string" where
  "to_str v = (case v of None \<Rightarrow> ''undefined'' | Some s \<Rightarrow> s)"

definition digit_char :: "nat \<Rightarrow> char" where
  "digit_char d = ''0123456789'' ! (d mod 10)"

fun digits :: "nat \<Rightarrow> string" where
  "digits n = (if n < 10 then [digit_char n] else digits (n div 10) @ [digit_char (n mod 10)])"

declare digits.simps [simp del]

text \<open>
  \<open>Number.prototype.toFixed(f)\<close> on a finite number, by the steps of ECMA-262: the sign
  is split off; a value of at least \<open>10^21\<close> is printed by \<open>ToString\<close> (exponent notation,
  which depends on the double and is taken as the parameter \<open>toString\<close>); otherwise \<open>n\<close>
  is the integer nearest to \<open>x * 10^f\<close>, the larger one on a tie, its decimal digits are
  padded on the left with zeros to \<open>f + 1\<close> characters, and a point is put before the
  last \<open>f\<close> of them. The handlers call it with \<open>f = 2\<close> only (a RangeError needs
  \<open>f > 100\<close>).
\<close>

definition toFixed :: "(rat \<Rightarrow> string) \<Rightarrow> rat \<Rightarrow> nat \<Rightarrow> string" where
  "toFixed toString x0 f =
     (let s = (if x0 < 0 then ''-'' else []);
          x = (if x0 < 0 then - x0 else x0)
      in if x \<ge> 10 ^ 21 then s @ toString x
         else
           let n = nat \<lfloor>x * 10 ^ f + 1 / 2\<rfloor>;
               m = digits n
           in if f = 0 then s @ m
              else
                let m' = (if length m \<le> f then replicate (f + 1 - length m) (CHR ''0'') @ m else m);
                    k = length m'
                in s @ take (k - f) m' @ ''.'' @ drop (k - f) m')"

subsection \<open>The handlers\<close>

definition chat_disclaimer :: string where
  "chat_disclaimer = ''We couldn't confidently predict a disease based on your symptoms.''"

definition image_disclaimer :: string where
  "image_disclaimer = ''We couldn't confidently diagnose the skin condition from the image.''"

definition connect_error :: string where
  "connect_error = ''Error connecting to the API.''"

text \<open>
  \<open>!response.confidence || response.confidence < 70\<close>: the negation is true when the
  property is \<open>undefined\<close> and when it is the number zero; the comparison is evaluated
  for the other numbers. The \<open>else\<close> branch is reached with a number only, so that
  \<open>toFixed\<close> does not throw there.
\<close>

definition handleChatResponse :: "(rat \<Rightarrow> string) \<Rightarrow> payload \<Rightarrow> app \<Rightarrow> app" where
  "handleChatResponse toString r st =
     (case confidence r of
        None \<Rightarrow> st\<lparr>result := chat_disclaimer\<rparr>
      | Some c \<Rightarrow>
          if c = 0 \<or> c < 70 then st\<lparr>result := chat_disclaimer\<rparr>
          else st\<lparr>result := to_str (response r) @ '' (Confidence: '' @ toFixed toString c 2 @ ''%)''\<rparr>)"

definition handleImagePrediction :: "(rat \<Rightarrow> string) \<Rightarrow> payload \<Rightarrow> app \<Rightarrow> app" where
  "handleImagePrediction toString r st =
     (case confidence r of
        None \<Rightarrow> st\<lparr>imageResult := image_disclaimer\<rparr>
      | Some c \<Rightarrow>
          if c = 0 \<or> c < 70 then st\<lparr>imageResult := image_disclaimer\<rparr>
          else st\<lparr>imageResult := to_str (prediction r) @ '' (Confidence: '' @ toFixed toString c 2 @ ''%)''\<rparr>)"

text \<open>\<open>setChatHistory((prevHistory) => [...prevHistory, e])\<close>.\<close>

definition append_entry :: "entry \<Rightarrow> app \<Rightarrow> app" where
  "append_entry e st = st\<lparr>chatHistory := chatHistory st @ [e]\<rparr>"

text \<open>
  \<open>handleSendMessage\<close>: the request carries the pending message and the transcript; the
  \<open>try\<close> block throws when \<open>fetch\<close> rejects, when \<open>res.json()\<close> rejects, and when
  \<open>data\<close> is \<open>null\<close> (reading \<open>data.response\<close> is a TypeError); \<open>setMessage('')\<close> follows
  the \<open>try\<close> statement on every path.
\<close>

definition handleSendMessage :: "(rat \<Rightarrow> string) \<Rightarrow> fetch_result \<Rightarrow> app \<Rightarrow> app" where
  "handleSendMessage toString res st =
     (let sent = st\<lparr>requests := requests st @ [ChatRequest (message st) (chatHistory st)]\<rparr>;
          caught = append_entry (TextEntry ''Error'' connect_error) sent;
          done =
            (case res of
               Rejected \<Rightarrow> caught
             | Resolved code NotJson \<Rightarrow> caught
             | Resolved code JsonNull \<Rightarrow> caught
             | Resolved code (JsonValue data) \<Rightarrow>
                 if truthy (response data) then
                   append_entry (TextEntry (message st) (to_str (response data)))
                     (handleChatResponse toString data sent)
                 else if truthy (error data) then
                   append_entry (TextEntry ''Error'' (to_str (error data))) sent
                 else sent)
      in done\<lparr>message := []\<rparr>)"

text \<open>
  \<open>handleImageUpload\<close>: without a selected file it returns at once with the value of
  \<open>alert(...)\<close>, before \<open>fetch\<close> and before \<open>setImage(null)\<close>. Otherwise \<open>localUrl\<close> is
  what \<open>URL.createObjectURL(image)\<close> returned, the request carries the file, and
  \<open>setImage(null)\<close> follows the \<open>try\<close> statement on every path.
\<close>

definition handleImageUpload :: "(rat \<Rightarrow> string) \<Rightarrow> string \<Rightarrow> fetch_result \<Rightarrow> app \<Rightarrow> app" where
  "handleImageUpload toString localUrl res st =
     (case image_file st of
        None \<Rightarrow> st\<lparr>alerts := alerts st @ [''Please upload an image.'']\<rparr>
      | Some img \<Rightarrow>
          let sent = st\<lparr>requests := requests st @ [ImageRequest img]\<rparr>;
              caught = append_entry (TextEntry ''Error'' connect_error) sent;
              done =
                (case res of
                   Rejected \<Rightarrow> caught
                 | Resolved code NotJson \<Rightarrow> caught
                 | Resolved code JsonNull \<Rightarrow> caught
                 | Resolved code (JsonValue data) \<Rightarrow>
                     if truthy (prediction data) then
                       append_entry (ImageEntry localUrl (to_str (prediction data)))
                         (handleImagePrediction toString data sent)
                     else sent)
          in done\<lparr>image_file := None\<rparr>)"

definition handlePromptClick :: "string \<Rightarrow> app \<Rightarrow> app" where
  "handlePromptClick prompt st = st\<lparr>message := prompt\<rparr>"

subsection \<open>Sessions\<close>

text \<open>
  What the user can do, with the answer of the outside world where there is one: the two
  form submissions, a click on a suggested prompt, and the two \<open>onChange\<close> handlers of the
  inputs (\<open>setMessage(e.target.value)\<close>, \<open>setImage(e.target.files[0])\<close>, the latter
  \<open>undefined\<close> when the file dialog is cancelled).
\<close>

datatype event =
    SendMessage fetch_result
  | ImageUpload string fetch_result
  | PromptClick string
  | ChangeMessage string
  | ChangeImage "js_file option"

fun step :: "(rat \<Rightarrow> string) \<Rightarrow> event \<Rightarrow> app \<Rightarrow> app" where
  "step toString (SendMessage res) st = handleSendMessage toString res st"
| "step toString (ImageUpload localUrl res) st = handleImageUpload toString localUrl res st"
| "step toString (PromptClick prompt) st = handlePromptClick prompt st"
| "step toString (ChangeMessage text) st = st\<lparr>message := text\<rparr>"
| "step toString (ChangeImage f) st = st\<lparr>image_file := f\<rparr>"

fun run :: "(rat \<Rightarrow> string) \<Rightarrow> event list \<Rightarrow> app \<Rightarrow> app" where
  "run toString [] st = st"
| "run toString (e # es) st = run toString es (step toString e st)"

subsection \<open>The specification's rendering of a confidence\<close>

text \<open>
  The specification asks for the confidence "rendered with exactly two decimal digits".
  Written down from these words, for a value that is not negative: the value is rounded
  to the nearest hundredth (half up), and printed as the decimal digits of its integer
  part, a point, the tenths digit and the hundredths digit.
\<close>

definition hundredths :: "rat \<Rightarrow> nat" where
  "hundredths c = nat \<lfloor>c * 100 + 1 / 2\<rfloor>"

definition two_decimals :: "rat \<Rightarrow> string" where
  "two_decimals c =
     digits (hundredths c div 100) @ ''.'' @
       [digit_char (hundredths c div 10 mod 10), digit_char (hundredths c mod 10)]"

text \<open>
  A closed example has to name some function for the parameter \<open>toString\<close>. No example
  below has a confidence of \<open>10^21\<close> or more, so none of them applies it.
\<close>

definition unused_toString :: "rat \<Rightarrow> string" where
  "unused_toString x = []"

section \<open>Properties\<close>

subsection \<open>Decimal digits and \<open>toFixed\<close>\<close>

lemma digits_one: "n < 10 \<Longrightarrow> digits n = [digit_char n]"
  by (subst digits.simps) simp

lemma digits_more: "10 \<le> n \<Longrightarrow> digits n = digits (n div 10) @ [digit_char (n mod 10)]"
  by (subst digits.simps) simp

lemma floor_numeral_div: "\<lfloor>numeral a / numeral b :: rat\<rfloor> = numeral a div numeral b"
  by (metis floor_divide_of_int_eq of_int_numeral)

lemma digit_char_0: "digit_char 0 = CHR ''0''"
  by (simp add: digit_char_def)

lemma digits_not_Nil: "digits n \<noteq> []"
  by (subst digits.simps) simp

lemma digits_split: "100 \<le> n \<Longrightarrow>
  digits n = digits (n div 100) @ [digit_char (n div 10 mod 10), digit_char (n mod 10)]"
proof -
  assume h: "100 \<le> n"
  then have a: "digits n = digits (n div 10) @ [digit_char (n mod 10)]"
    by (simp add: digits_more)
  from h have "10 \<le> n div 10" by simp
  then have b: "digits (n div 10) = digits (n div 10 div 10) @ [digit_char (n div 10 mod 10)]"
    by (rule digits_more)
  have c: "n div 10 div 10 = n div 100" by (simp add: div_mult2_eq[symmetric])
  show ?thesis by (simp add: a b c)
qed

lemma toFixed_two_decimals:
  assumes "0 \<le> c" "c < 10 ^ 21"
  shows "toFixed ts c 2 = two_decimals c"
proof -
  define n where "n = hundredths c"
  have n: "nat \<lfloor>c * 100 + 1 / 2\<rfloor> = n" by (simp add: n_def hundredths_def)
  have sel: "\<not> c < 0" "\<not> 1000000000000000000000 \<le> c" using assms by simp_all
  consider "n < 10" | "10 \<le> n" "n < 100" | "100 \<le> n" by linarith
  then show ?thesis
  proof cases
    case 1
    then have d: "digits n = [digit_char n]" by (rule digits_one)
    from 1 show ?thesis
      by (simp add: toFixed_def Let_def sel n d two_decimals_def n_def[symmetric]
          digits_one digit_char_0)
  next
    case 2
    then have "n div 10 < 10" by simp
    then have d: "digits n = [digit_char (n div 10), digit_char (n mod 10)]"
      using 2 by (simp add: digits_more digits_one)
    from 2 show ?thesis
      by (simp add: toFixed_def Let_def sel n d two_decimals_def n_def[symmetric]
          digits_one digit_char_0)
  next
    case 3
    have d: "digits n = digits (n div 100) @ [digit_char (n div 10 mod 10), digit_char (n mod 10)]"
      by (rule digits_split[OF 3])
    have "digits (n div 100) \<noteq> []" by (rule digits_not_Nil)
    then have l: "\<not> length (digits (n div 100)) + 2 \<le> 2" by simp
    show ?thesis
      by (simp add: toFixed_def Let_def sel n d l two_decimals_def n_def[symmetric] digits_not_Nil)
  qed
qed

lemma hundredths_near: "0 \<le> c \<Longrightarrow> \<bar>of_nat (hundredths c) / 100 - c\<bar> \<le> 1 / 200"
proof -
  assume c: "0 \<le> c"
  define x where "x = c * 100 + 1 / 2"
  have "0 \<le> x" using c by (simp add: x_def)
  then have "0 \<le> \<lfloor>x\<rfloor>" by simp
  then have e: "(of_nat (hundredths c) :: rat) = of_int \<lfloor>x\<rfloor>"
    by (simp add: hundredths_def x_def)
  have "of_int \<lfloor>x\<rfloor> \<le> x" "x < of_int \<lfloor>x\<rfloor> + 1"
    by linarith+
  then have "of_int \<lfloor>x\<rfloor> \<le> c * 100 + 1 / 2" "c * 100 + 1 / 2 < of_int \<lfloor>x\<rfloor> + 1"
    by (simp_all only: x_def)
  then show ?thesis unfolding e by linarith
qed

subsection \<open>The confidence threshold\<close>

text \<open>A verdict with an annotation ends in a bracket, a disclaimer in a full stop.\<close>

lemma annotation_not_chat_disclaimer:
  "l @ '' (Confidence: '' @ t @ ''%)'' \<noteq> chat_disclaimer"
proof
  assume "l @ '' (Confidence: '' @ t @ ''%)'' = chat_disclaimer"
  then have "last (l @ '' (Confidence: '' @ t @ ''%)'') = last chat_disclaimer" by simp
  then show False by (simp add: chat_disclaimer_def)
qed

lemma annotation_not_image_disclaimer:
  "l @ '' (Confidence: '' @ t @ ''%)'' \<noteq> image_disclaimer"
proof
  assume "l @ '' (Confidence: '' @ t @ ''%)'' = image_disclaimer"
  then have "last (l @ '' (Confidence: '' @ t @ ''%)'') = last image_disclaimer" by simp
  then show False by (simp add: image_disclaimer_def)
qed

lemma result_handleChatResponse:
  "result (handleChatResponse ts r st) =
     (case confidence r of None \<Rightarrow> chat_disclaimer
      | Some c \<Rightarrow> if c < 70 then chat_disclaimer
                  else to_str (response r) @ '' (Confidence: '' @ toFixed ts c 2 @ ''%)'')"
  by (auto simp: handleChatResponse_def split: option.splits)

lemma imageResult_handleImagePrediction:
  "imageResult (handleImagePrediction ts r st) =
     (case confidence r of None \<Rightarrow> image_disclaimer
      | Some c \<Rightarrow> if c < 70 then image_disclaimer
                  else to_str (prediction r) @ '' (Confidence: '' @ toFixed ts c 2 @ ''%)'')"
  by (auto simp: handleImagePrediction_def split: option.splits)

lemma result_high:
  "confidence r = Some c \<Longrightarrow> \<not> c < 70 \<Longrightarrow> result (handleChatResponse ts r st) \<noteq> chat_disclaimer"
  using annotation_not_chat_disclaimer[of "to_str (response r)" "toFixed ts c 2"]
  by (simp add: result_handleChatResponse)

lemma imageResult_high:
  "confidence r = Some c \<Longrightarrow> \<not> c < 70 \<Longrightarrow>
     imageResult (handleImagePrediction ts r st) \<noteq> image_disclaimer"
  using annotation_not_image_disclaimer[of "to_str (prediction r)" "toFixed ts c 2"]
  by (simp add: imageResult_handleImagePrediction)

lemma threshold_iff:
  "(result (handleChatResponse ts r st) = chat_disclaimer \<longleftrightarrow>
      confidence r = None \<or> (\<exists>c. confidence r = Some c \<and> c < 70))
   \<and> (imageResult (handleImagePrediction ts r st) = image_disclaimer \<longleftrightarrow>
      confidence r = None \<or> (\<exists>c. confidence r = Some c \<and> c < 70))"
proof (intro conjI)
  show "result (handleChatResponse ts r st) = chat_disclaimer \<longleftrightarrow>
      confidence r = None \<or> (\<exists>c. confidence r = Some c \<and> c < 70)"
  proof (cases "confidence r")
    case None
    then show ?thesis by (simp add: result_handleChatResponse)
  next
    case (Some c)
    then show ?thesis
      by (cases "c < 70") (simp_all add: result_high, simp add: result_handleChatResponse)
  qed
  show "imageResult (handleImagePrediction ts r st) = image_disclaimer \<longleftrightarrow>
      confidence r = None \<or> (\<exists>c. confidence r = Some c \<and> c < 70)"
  proof (cases "confidence r")
    case None
    then show ?thesis by (simp add: imageResult_handleImagePrediction)
  next
    case (Some c)
    then show ?thesis
      by (cases "c < 70")
        (simp_all add: imageResult_high, simp add: imageResult_handleImagePrediction)
  qed
qed

text \<open>
  Claim C1. The text handler sets its verdict to the text
  \<open>We couldn't confidently predict a disease based on your symptoms.\<close> exactly when the
  response has no confidence or a confidence below 70, and the image handler sets its
  verdict to \<open>We couldn't confidently diagnose the skin condition from the image.\<close>
  exactly then. A confidence of exactly 70 gives neither text, and neither text is a
  label with a confidence annotation.
\<close>

theorem interpreter_disclaimer_iff:
  "(result (handleChatResponse ts r st) =
        ''We couldn't confidently predict a disease based on your symptoms.'' \<longleftrightarrow>
      confidence r = None \<or> (\<exists>c. confidence r = Some c \<and> c < 70))
   \<and> (imageResult (handleImagePrediction ts r st) =
        ''We couldn't confidently diagnose the skin condition from the image.'' \<longleftrightarrow>
      confidence r = None \<or> (\<exists>c. confidence r = Some c \<and> c < 70))
   \<and> result (handleChatResponse ts (r\<lparr>confidence := Some 70\<rparr>) st) \<noteq>
        ''We couldn't confidently predict a disease based on your symptoms.''
   \<and> imageResult (handleImagePrediction ts (r\<lparr>confidence := Some 70\<rparr>) st) \<noteq>
        ''We couldn't confidently diagnose the skin condition from the image.''
   \<and> ''We couldn't confidently predict a disease based on your symptoms.'' \<noteq>
        label @ '' (Confidence: '' @ shown @ ''%)''
   \<and> ''We couldn't confidently diagnose the skin condition from the image.'' \<noteq>
        label @ '' (Confidence: '' @ shown @ ''%)''"
proof -
  have a: "result (handleChatResponse ts (r\<lparr>confidence := Some 70\<rparr>) st) \<noteq> chat_disclaimer"
    by (rule result_high[of _ 70]) simp_all
  have b: "imageResult (handleImagePrediction ts (r\<lparr>confidence := Some 70\<rparr>) st) \<noteq>
      image_disclaimer"
    by (rule imageResult_high[of _ 70]) simp_all
  have c: "chat_disclaimer \<noteq> label @ '' (Confidence: '' @ shown @ ''%)''"
    using annotation_not_chat_disclaimer[of label shown] by (simp add: eq_commute)
  have d: "image_disclaimer \<noteq> label @ '' (Confidence: '' @ shown @ ''%)''"
    using annotation_not_image_disclaimer[of label shown] by (simp add: eq_commute)
  show ?thesis
    using threshold_iff[of ts r st] a b c d
    unfolding chat_disclaimer_def image_disclaimer_def by blast
qed

lemma two_decimals_example: "two_decimals (171 / 2) = ''85.50''"
  by (simp add: two_decimals_def hundredths_def floor_numeral_div digits_one digits_more digit_char_def)

lemma two_decimals_boundary: "two_decimals 70 = ''70.00''"
  by (simp add: two_decimals_def hundredths_def floor_numeral_div digits_one digits_more digit_char_def)

lemma two_decimals_carry: "two_decimals (25599 / 256) = ''100.00''"
  by (simp add: two_decimals_def hundredths_def floor_numeral_div digits_one digits_more digit_char_def)

text \<open>
  Claim C2. For a response with a confidence of at least 70 (and below \<open>10^21\<close>, which
  covers the scores from 0 to 100 of the data model), the verdict is the label, then
  \<open>(Confidence: \<close>, the confidence rendered with two decimal digits, and \<open>%)\<close>; the
  rendered number is within half a hundredth of the confidence. On the text channel the
  label is the \<open>response\<close> property and nothing is asked of the \<open>prediction\<close> property; on
  the image channel the label is the \<open>prediction\<close> property and nothing is asked of the
  \<open>response\<close> property. The renderings of 85.5, of 70 and of 99.99609375 are \<open>85.50\<close>,
  \<open>70.00\<close> and \<open>100.00\<close>, and label \<open>Eczema\<close> with confidence 85.5 gives
  \<open>Eczema (Confidence: 85.50%)\<close>.
\<close>

theorem interpreter_annotation:
  assumes "confidence r = Some c" and "70 \<le> c" and "c < 10 ^ 21"
  shows "(response r = Some label \<longrightarrow>
        result (handleChatResponse ts r st) = label @ '' (Confidence: '' @ two_decimals c @ ''%)'')
    \<and> (prediction r = Some label \<longrightarrow>
        imageResult (handleImagePrediction ts r st) =
          label @ '' (Confidence: '' @ two_decimals c @ ''%)'')
    \<and> \<bar>of_nat (hundredths c) / 100 - c\<bar> \<le> 1 / 200
    \<and> two_decimals (171 / 2) = ''85.50'' \<and> two_decimals 70 = ''70.00''
    \<and> two_decimals (25599 / 256) = ''100.00''
    \<and> result (handleChatResponse ts
          \<lparr>response = Some ''Eczema'', prediction = None, error = None,
            confidence = Some (171 / 2)\<rparr> st) = ''Eczema (Confidence: 85.50%)''
    \<and> imageResult (handleImagePrediction ts
          \<lparr>response = None, prediction = Some ''Eczema'', error = None,
            confidence = Some (171 / 2)\<rparr> st) = ''Eczema (Confidence: 85.50%)''"
proof -
  from assms have c0: "0 \<le> c" and nl: "\<not> c < 70" by simp_all
  have tf: "toFixed ts c 2 = two_decimals c"
    using c0 assms(3) by (rule toFixed_two_decimals)
  have ex: "toFixed ts (171 / 2) 2 = ''85.50''"
    by (simp add: toFixed_two_decimals two_decimals_example)
  have general: "(response r = Some label \<longrightarrow>
        result (handleChatResponse ts r st) = label @ '' (Confidence: '' @ two_decimals c @ ''%)'')
    \<and> (prediction r = Some label \<longrightarrow>
        imageResult (handleImagePrediction ts r st) =
          label @ '' (Confidence: '' @ two_decimals c @ ''%)'')"
    using assms(1) nl
    by (simp add: result_handleChatResponse imageResult_handleImagePrediction tf to_str_def)
  have examples: "result (handleChatResponse ts
          \<lparr>response = Some ''Eczema'', prediction = None, error = None,
            confidence = Some (171 / 2)\<rparr> st) = ''Eczema (Confidence: 85.50%)''
    \<and> imageResult (handleImagePrediction ts
          \<lparr>response = None, prediction = Some ''Eczema'', error = None,
            confidence = Some (171 / 2)\<rparr> st) = ''Eczema (Confidence: 85.50%)''"
    by (simp add: result_handleChatResponse imageResult_handleImagePrediction ex to_str_def)
  show ?thesis
    using general examples hundredths_near[OF c0]
      two_decimals_example two_decimals_boundary two_decimals_carry
    by blast
qed

text \<open>
  The theorem at an answer of the chat endpoint (no \<open>prediction\<close> property) and at an
  answer of the image endpoint (no \<open>response\<close> property), at the boundary 70.
\<close>

theorem interpreter_annotation_witness:
  "(70::rat) \<le> 70 \<and> (70::rat) < 10 ^ 21
   \<and> result (handleChatResponse unused_toString
      \<lparr>response = Some ''Acne'', prediction = None, error = None,
        confidence = Some 70\<rparr> initial) = ''Acne (Confidence: 70.00%)''
   \<and> imageResult (handleImagePrediction unused_toString
      \<lparr>response = None, prediction = Some ''Psoriasis'', error = None,
        confidence = Some 70\<rparr> initial) = ''Psoriasis (Confidence: 70.00%)''"
  using interpreter_annotation [of
      "\<lparr>response = Some ''Acne'', prediction = None, error = None,
        confidence = Some 70\<rparr>" 70 "''Acne''" unused_toString initial]
    interpreter_annotation [of
      "\<lparr>response = None, prediction = Some ''Psoriasis'', error = None,
        confidence = Some 70\<rparr>" 70 "''Psoriasis''" unused_toString initial]
  by simp

subsection \<open>What the response handlers leave alone\<close>

lemma handleChatResponse_frame:
  "chatHistory (handleChatResponse ts r st) = chatHistory st"
  "imageResult (handleChatResponse ts r st) = imageResult st"
  "message (handleChatResponse ts r st) = message st"
  "image_file (handleChatResponse ts r st) = image_file st"
  "requests (handleChatResponse ts r st) = requests st"
  "alerts (handleChatResponse ts r st) = alerts st"
  by (simp_all add: handleChatResponse_def split: option.splits)

lemma handleImagePrediction_frame:
  "chatHistory (handleImagePrediction ts r st) = chatHistory st"
  "result (handleImagePrediction ts r st) = result st"
  "message (handleImagePrediction ts r st) = message st"
  "image_file (handleImagePrediction ts r st) = image_file st"
  "requests (handleImagePrediction ts r st) = requests st"
  "alerts (handleImagePrediction ts r st) = alerts st"
  by (simp_all add: handleImagePrediction_def split: option.splits)

subsection \<open>The transcript\<close>

lemma chatHistory_handleSendMessage:
  "chatHistory (handleSendMessage ts res st) =
     chatHistory st @
       (case res of
          Rejected \<Rightarrow> [TextEntry ''Error'' connect_error]
        | Resolved code NotJson \<Rightarrow> [TextEntry ''Error'' connect_error]
        | Resolved code JsonNull \<Rightarrow> [TextEntry ''Error'' connect_error]
        | Resolved code (JsonValue data) \<Rightarrow>
            if truthy (response data) then [TextEntry (message st) (to_str (response data))]
            else if truthy (error data) then [TextEntry ''Error'' (to_str (error data))]
            else [])"
  by (simp add: handleSendMessage_def Let_def append_entry_def handleChatResponse_frame
      split: fetch_result.splits body.splits)

lemma chatHistory_handleImageUpload:
  "chatHistory (handleImageUpload ts url res st) =
     chatHistory st @
       (case image_file st of
          None \<Rightarrow> []
        | Some img \<Rightarrow>
           (case res of
              Rejected \<Rightarrow> [TextEntry ''Error'' connect_error]
            | Resolved code NotJson \<Rightarrow> [TextEntry ''Error'' connect_error]
            | Resolved code JsonNull \<Rightarrow> [TextEntry ''Error'' connect_error]
            | Resolved code (JsonValue data) \<Rightarrow>
                if truthy (prediction data) then [ImageEntry url (to_str (prediction data))]
                else []))"
  by (simp add: handleImageUpload_def Let_def append_entry_def handleImagePrediction_frame
      split: fetch_result.splits body.splits option.splits)

lemma step_appends:
  "\<exists>new. chatHistory (step ts e st) = chatHistory st @ new \<and> length new \<le> 1"
proof (cases e)
  case (SendMessage res)
  then show ?thesis
    by (simp add: chatHistory_handleSendMessage split: fetch_result.splits body.splits)
next
  case (ImageUpload url res)
  then show ?thesis
    by (simp add: chatHistory_handleImageUpload
        split: fetch_result.splits body.splits option.splits)
next
  case (PromptClick prompt)
  then show ?thesis by (simp add: handlePromptClick_def)
next
  case (ChangeMessage t)
  then show ?thesis by simp
next
  case (ChangeImage f)
  then show ?thesis by simp
qed

lemma run_appends:
  "\<exists>new. chatHistory (run ts es st) = chatHistory st @ new \<and> length new \<le> length es"
proof (induction es arbitrary: st)
  case Nil
  then show ?case by simp
next
  case (Cons e es)
  obtain a where a: "chatHistory (step ts e st) = chatHistory st @ a" "length a \<le> 1"
    using step_appends by blast
  obtain b where b: "chatHistory (run ts es (step ts e st)) = chatHistory (step ts e st) @ b"
      "length b \<le> length es"
    using Cons.IH by blast
  have "chatHistory (run ts (e # es) st) = chatHistory st @ (a @ b)"
    by (simp add: a b)
  moreover have "length (a @ b) \<le> length (e # es)"
    using a b by simp
  ultimately show ?case by blast
qed

text \<open>
  Claim C3. The transcript only grows at its end: every event (a text submit or an image
  upload with any outcome, a prompt click, a change of an input) leaves the transcript as
  it was and appends at most one entry, and after any sequence of events the old
  transcript is still the beginning of the new one, entry by entry.
\<close>

theorem transcript_append_only:
  "(\<exists>new. chatHistory (step ts e st) = chatHistory st @ new \<and> length new \<le> 1)
   \<and> (\<exists>new. chatHistory (run ts es st) = chatHistory st @ new \<and> length new \<le> length es)
   \<and> length (chatHistory st) \<le> length (chatHistory (run ts es st))
   \<and> take (length (chatHistory st)) (chatHistory (run ts es st)) = chatHistory st"
proof -
  obtain new where n: "chatHistory (run ts es st) = chatHistory st @ new"
    using run_appends by blast
  show ?thesis
    using step_appends[of ts e st] run_appends[of ts es st] by (simp add: n)
qed

subsection \<open>Text submits\<close>

lemma handleSendMessage_message: "message (handleSendMessage ts res st) = []"
  by (simp add: handleSendMessage_def Let_def)

lemma result_handleSendMessage:
  "result (handleSendMessage ts res st) =
     (case res of
        Resolved code (JsonValue data) \<Rightarrow>
          if truthy (response data) then result (handleChatResponse ts data st) else result st
      | _ \<Rightarrow> result st)"
  by (simp add: handleSendMessage_def Let_def append_entry_def result_handleChatResponse
      split: fetch_result.splits body.splits)

lemma imageResult_handleSendMessage:
  "imageResult (handleSendMessage ts res st) = imageResult st"
  by (simp add: handleSendMessage_def Let_def append_entry_def handleChatResponse_frame
      split: fetch_result.splits body.splits)

text \<open>
  Claim C4. From any state whose pending text is \<open>Red rash on arms\<close>, a submit answered
  (with any HTTP status) by \<open>{response: "Eczema", confidence: 85.5}\<close> appends the one
  entry \<open>{type: 'text', user: 'Red rash on arms', bot: 'Eczema'}\<close>, sets the text verdict
  to \<open>Eczema (Confidence: 85.50%)\<close> and leaves the pending text empty.
\<close>

theorem text_submit_example:
  "chatHistory (handleSendMessage ts
       (Resolved code (JsonValue \<lparr>response = Some ''Eczema'', prediction = None, error = None,
          confidence = Some (171 / 2)\<rparr>))
       (st\<lparr>message := ''Red rash on arms''\<rparr>))
     = chatHistory st @ [TextEntry ''Red rash on arms'' ''Eczema'']
   \<and> result (handleSendMessage ts
       (Resolved code (JsonValue \<lparr>response = Some ''Eczema'', prediction = None, error = None,
          confidence = Some (171 / 2)\<rparr>))
       (st\<lparr>message := ''Red rash on arms''\<rparr>))
     = ''Eczema (Confidence: 85.50%)''
   \<and> message (handleSendMessage ts
       (Resolved code (JsonValue \<lparr>response = Some ''Eczema'', prediction = None, error = None,
          confidence = Some (171 / 2)\<rparr>))
       (st\<lparr>message := ''Red rash on arms''\<rparr>))
     = []"
proof -
  have "toFixed ts (171 / 2) 2 = ''85.50''"
    by (simp add: toFixed_two_decimals two_decimals_example)
  then show ?thesis
    by (simp add: chatHistory_handleSendMessage result_handleSendMessage
        handleSendMessage_message result_handleChatResponse truthy_def to_str_def)
qed

text \<open>
  Claim C5. When the request of a text submit fails (\<open>fetch\<close> rejects, or the body of the
  answer is not JSON), one text entry with user \<open>Error\<close> and the fixed connection
  message is appended, the text verdict stays what it was, and the pending text is
  cleared.
\<close>

theorem text_submit_transport_failure:
  "chatHistory (handleSendMessage ts Rejected st) =
       chatHistory st @ [TextEntry ''Error'' ''Error connecting to the API.'']
   \<and> result (handleSendMessage ts Rejected st) = result st
   \<and> message (handleSendMessage ts Rejected st) = []
   \<and> chatHistory (handleSendMessage ts (Resolved code NotJson) st) =
       chatHistory st @ [TextEntry ''Error'' ''Error connecting to the API.'']
   \<and> result (handleSendMessage ts (Resolved code NotJson) st) = result st
   \<and> message (handleSendMessage ts (Resolved code NotJson) st) = []"
  by (simp add: chatHistory_handleSendMessage result_handleSendMessage
      handleSendMessage_message connect_error_def)

text \<open>
  Claim C6 as stated fails for an error message that is the empty string: the guard
  \<open>else if (data.error)\<close> is false for it, and nothing is appended.
\<close>

theorem empty_error_message_counterexample:
  "chatHistory (handleSendMessage unused_toString
       (Resolved 200 (JsonValue \<lparr>response = None, prediction = None, error = Some [],
          confidence = None\<rparr>)) initial) = []
   \<and> chatHistory (handleSendMessage unused_toString
       (Resolved 200 (JsonValue \<lparr>response = None, prediction = None, error = Some [],
          confidence = None\<rparr>)) initial) \<noteq> chatHistory initial @ [TextEntry ''Error'' []]"
  by (simp add: chatHistory_handleSendMessage truthy_def initial_def)

text \<open>
  Claim C6, amended. For every text submit whose answer has no \<open>response\<close> property and
  an \<open>error\<close> property that is a non-empty string, exactly one text entry is appended,
  with user \<open>Error\<close> and the error message as it came, and the text verdict is not
  changed.
\<close>

theorem service_error_entry:
  assumes "response p = None" and "error p = Some e" and "e \<noteq> []"
  shows "chatHistory (handleSendMessage ts (Resolved code (JsonValue p)) st) =
           chatHistory st @ [TextEntry ''Error'' e]
     \<and> result (handleSendMessage ts (Resolved code (JsonValue p)) st) = result st"
  using assms
  by (simp add: chatHistory_handleSendMessage result_handleSendMessage truthy_def to_str_def)

theorem service_error_entry_witness:
  "chatHistory (handleSendMessage unused_toString
       (Resolved 400 (JsonValue \<lparr>response = None, prediction = None,
          error = Some ''No message provided'', confidence = None\<rparr>)) initial) =
     [TextEntry ''Error'' ''No message provided'']
   \<and> result (handleSendMessage unused_toString
       (Resolved 400 (JsonValue \<lparr>response = None, prediction = None,
          error = Some ''No message provided'', confidence = None\<rparr>)) initial) = []"
  using service_error_entry [of
      "\<lparr>response = None, prediction = None, error = Some ''No message provided'',
        confidence = None\<rparr>" "''No message provided''" unused_toString 400 initial]
  by (simp add: initial_def)

subsection \<open>Image uploads\<close>

lemma imageResult_handleImageUpload:
  "imageResult (handleImageUpload ts url res st) =
     (case image_file st of
        None \<Rightarrow> imageResult st
      | Some img \<Rightarrow>
         (case res of
            Resolved code (JsonValue data) \<Rightarrow>
              if truthy (prediction data) then imageResult (handleImagePrediction ts data st)
              else imageResult st
          | _ \<Rightarrow> imageResult st))"
  by (simp add: handleImageUpload_def Let_def append_entry_def imageResult_handleImagePrediction
      split: fetch_result.splits body.splits option.splits)

lemma result_handleImageUpload:
  "result (handleImageUpload ts url res st) = result st"
  by (simp add: handleImageUpload_def Let_def append_entry_def handleImagePrediction_frame
      split: fetch_result.splits body.splits option.splits)

lemma image_file_handleImageUpload:
  "image_file (handleImageUpload ts url res st) = None"
  by (simp add: handleImageUpload_def Let_def split: option.splits)

text \<open>
  Claim C7. With no file selected, an upload passes nothing to \<open>fetch\<close>, appends nothing
  to the transcript, leaves the image verdict as it was, and shows the alert
  \<open>Please upload an image.\<close>
\<close>

theorem upload_without_image:
  assumes "image_file st = None"
  shows "requests (handleImageUpload ts url res st) = requests st
     \<and> chatHistory (handleImageUpload ts url res st) = chatHistory st
     \<and> imageResult (handleImageUpload ts url res st) = imageResult st
     \<and> alerts (handleImageUpload ts url res st) = alerts st @ [''Please upload an image.'']"
  using assms by (simp add: handleImageUpload_def)

theorem upload_without_image_witness:
  "image_file initial = None
   \<and> requests (handleImageUpload unused_toString ''blob:1'' Rejected initial) = []
   \<and> chatHistory (handleImageUpload unused_toString ''blob:1'' Rejected initial) = []
   \<and> imageResult (handleImageUpload unused_toString ''blob:1'' Rejected initial) = []
   \<and> alerts (handleImageUpload unused_toString ''blob:1'' Rejected initial) =
        [''Please upload an image.'']"
  using upload_without_image [of initial unused_toString "''blob:1''" Rejected]
  by (simp add: initial_def)

text \<open>
  Claim C8 as stated fails for a prediction that is the empty string: the guard
  \<open>if (data.prediction)\<close> is false for it, so that nothing is appended and the image
  verdict is not set, whatever the confidence.
\<close>

theorem empty_prediction_counterexample:
  "chatHistory (handleImageUpload unused_toString ''blob:1''
       (Resolved 200 (JsonValue \<lparr>response = None, prediction = Some [], error = None,
          confidence = Some 90\<rparr>))
       (initial\<lparr>image_file := Some (File ''arm.png'')\<rparr>)) = []
   \<and> imageResult (handleImageUpload unused_toString ''blob:1''
       (Resolved 200 (JsonValue \<lparr>response = None, prediction = Some [], error = None,
          confidence = Some 90\<rparr>))
       (initial\<lparr>image_file := Some (File ''arm.png'')\<rparr>)) = imageResult initial
   \<and> chatHistory (handleImageUpload unused_toString ''blob:1''
       (Resolved 200 (JsonValue \<lparr>response = None, prediction = Some [], error = None,
          confidence = Some 90\<rparr>))
       (initial\<lparr>image_file := Some (File ''arm.png'')\<rparr>)) \<noteq>
     chatHistory (initial\<lparr>image_file := Some (File ''arm.png'')\<rparr>) @ [ImageEntry ''blob:1'' []]"
  by (simp add: chatHistory_handleImageUpload imageResult_handleImageUpload truthy_def initial_def)

text \<open>
  Claim C8, amended. For every upload of a selected file whose answer has a \<open>prediction\<close>
  property that is a non-empty string, the image verdict becomes what
  \<open>handleImagePrediction\<close> computes from the answer, and exactly one image entry is
  appended, with the local URL of the file and the prediction as bot text. In particular
  \<open>{prediction: "Psoriasis", confidence: 40}\<close> appends one image entry with bot text
  \<open>Psoriasis\<close> and sets the image verdict to the disclaimer of the image channel.
\<close>

theorem upload_with_prediction:
  assumes "image_file st = Some img" and "prediction p = Some label" and "label \<noteq> []"
  shows "chatHistory (handleImageUpload ts url (Resolved code (JsonValue p)) st) =
           chatHistory st @ [ImageEntry url label]
     \<and> imageResult (handleImageUpload ts url (Resolved code (JsonValue p)) st) =
           imageResult (handleImagePrediction ts p st)
     \<and> chatHistory (handleImageUpload ts url
           (Resolved code (JsonValue \<lparr>response = None, prediction = Some ''Psoriasis'',
              error = None, confidence = Some 40\<rparr>)) st) =
           chatHistory st @ [ImageEntry url ''Psoriasis'']
     \<and> imageResult (handleImageUpload ts url
           (Resolved code (JsonValue \<lparr>response = None, prediction = Some ''Psoriasis'',
              error = None, confidence = Some 40\<rparr>)) st) = image_disclaimer"
  using assms
  by (simp add: chatHistory_handleImageUpload imageResult_handleImageUpload
      imageResult_handleImagePrediction truthy_def to_str_def)

theorem upload_with_prediction_witness:
  "chatHistory (handleImageUpload unused_toString ''blob:1''
       (Resolved 200 (JsonValue \<lparr>response = None, prediction = Some ''Psoriasis'',
          error = None, confidence = Some 40\<rparr>))
       (initial\<lparr>image_file := Some (File ''arm.png'')\<rparr>)) = [ImageEntry ''blob:1'' ''Psoriasis'']
   \<and> imageResult (handleImageUpload unused_toString ''blob:1''
       (Resolved 200 (JsonValue \<lparr>response = None, prediction = Some ''Psoriasis'',
          error = None, confidence = Some 40\<rparr>))
       (initial\<lparr>image_file := Some (File ''arm.png'')\<rparr>)) =
     ''We couldn't confidently diagnose the skin condition from the image.''"
  using upload_with_prediction [of "initial\<lparr>image_file := Some (File ''arm.png'')\<rparr>"
      "File ''arm.png''"
      "\<lparr>response = None, prediction = Some ''Psoriasis'', error = None, confidence = Some 40\<rparr>"
      "''Psoriasis''" unused_toString "''blob:1''" 200]
  by (simp add: initial_def image_disclaimer_def imageResult_handleImagePrediction)

subsection \<open>Failures and answers without a label\<close>

text \<open>
  Claim C9 as stated fails for an answer with a status outside 200 to 299 and a JSON body:
  \<open>fetch\<close> resolves for it, and the handlers treat it as any other answer. On the text
  channel the server's error text reaches the transcript; on the image channel nothing
  is appended.
\<close>

theorem status_not_read_counterexample:
  "chatHistory (handleSendMessage unused_toString
       (Resolved 500 (JsonValue \<lparr>response = None, prediction = None,
          error = Some ''Traceback: KeyError'', confidence = None\<rparr>)) initial) =
     [TextEntry ''Error'' ''Traceback: KeyError'']
   \<and> chatHistory (handleImageUpload unused_toString ''blob:1''
       (Resolved 500 (JsonValue \<lparr>response = None, prediction = None,
          error = Some ''Traceback: KeyError'', confidence = None\<rparr>))
       (initial\<lparr>image_file := Some (File ''arm.png'')\<rparr>)) = []"
  by (simp add: chatHistory_handleSendMessage chatHistory_handleImageUpload truthy_def
      to_str_def initial_def)

lemma handleSendMessage_status:
  "handleSendMessage ts (Resolved code b) st = handleSendMessage ts (Resolved code' b) st"
  by (simp add: handleSendMessage_def Let_def)

lemma handleImageUpload_status:
  "handleImageUpload ts url (Resolved code b) st = handleImageUpload ts url (Resolved code' b) st"
  by (simp add: handleImageUpload_def Let_def split: option.splits)

text \<open>
  Claim C9, amended. On both channels, a request that was sent and did not complete
  (\<open>fetch\<close> rejects) or whose answer's body is not JSON is shown as one text entry with
  user \<open>Error\<close> and the same fixed connection message: a text submit from any state
  \<open>st\<close>, an upload from any state \<open>sti\<close> in which a file is selected. The HTTP status of
  an answer is not read: from any state, an answer is handled the same way under any
  status.
\<close>

theorem failed_request_entry:
  assumes "image_file sti = Some img"
  shows "chatHistory (handleSendMessage ts Rejected st) =
           chatHistory st @ [TextEntry ''Error'' ''Error connecting to the API.'']
     \<and> chatHistory (handleSendMessage ts (Resolved code NotJson) st) =
           chatHistory st @ [TextEntry ''Error'' ''Error connecting to the API.'']
     \<and> chatHistory (handleImageUpload ts url Rejected sti) =
           chatHistory sti @ [TextEntry ''Error'' ''Error connecting to the API.'']
     \<and> chatHistory (handleImageUpload ts url (Resolved code NotJson) sti) =
           chatHistory sti @ [TextEntry ''Error'' ''Error connecting to the API.'']
     \<and> handleSendMessage ts (Resolved code b) st = handleSendMessage ts (Resolved code' b) st
     \<and> handleImageUpload ts url (Resolved code b) st =
           handleImageUpload ts url (Resolved code' b) st"
  using assms handleSendMessage_status[of ts code b st code']
    handleImageUpload_status[of ts url code b st code']
  by (simp add: chatHistory_handleSendMessage chatHistory_handleImageUpload connect_error_def)

text \<open>
  The theorem at a text submit with no file selected and at an upload of a selected file.
\<close>

theorem failed_request_entry_witness:
  "image_file (initial\<lparr>image_file := Some (File ''arm.png'')\<rparr>) = Some (File ''arm.png'')
   \<and> image_file initial = None
   \<and> chatHistory (handleSendMessage unused_toString Rejected initial) =
     [TextEntry ''Error'' ''Error connecting to the API.'']
   \<and> chatHistory (handleSendMessage unused_toString (Resolved 502 NotJson) initial) =
     [TextEntry ''Error'' ''Error connecting to the API.'']
   \<and> chatHistory (handleImageUpload unused_toString ''blob:1'' (Resolved 502 NotJson)
       (initial\<lparr>image_file := Some (File ''arm.png'')\<rparr>)) =
     [TextEntry ''Error'' ''Error connecting to the API.'']"
  using failed_request_entry [of "initial\<lparr>image_file := Some (File ''arm.png'')\<rparr>"
      "File ''arm.png''" unused_toString initial 502 "''blob:1''" NotJson 502]
  by (simp add: initial_def)

text \<open>
  Claim C10. An upload, from any state \<open>sti\<close> in which a file is selected, whose answer has
  no \<open>prediction\<close> property appends nothing, changes no verdict and clears the selected
  file. A text submit, from any state \<open>st\<close>, whose answer has neither a \<open>response\<close> nor an
  \<open>error\<close> property appends nothing, changes no verdict and clears the pending text.
\<close>

theorem answer_without_label:
  assumes "image_file sti = Some img" and "prediction p = None"
    and "response q = None" and "error q = None"
  shows "chatHistory (handleImageUpload ts url (Resolved code (JsonValue p)) sti) = chatHistory sti
     \<and> imageResult (handleImageUpload ts url (Resolved code (JsonValue p)) sti) = imageResult sti
     \<and> result (handleImageUpload ts url (Resolved code (JsonValue p)) sti) = result sti
     \<and> image_file (handleImageUpload ts url (Resolved code (JsonValue p)) sti) = None
     \<and> chatHistory (handleSendMessage ts (Resolved code (JsonValue q)) st) = chatHistory st
     \<and> result (handleSendMessage ts (Resolved code (JsonValue q)) st) = result st
     \<and> imageResult (handleSendMessage ts (Resolved code (JsonValue q)) st) = imageResult st
     \<and> message (handleSendMessage ts (Resolved code (JsonValue q)) st) = []"
  using assms
  by (simp add: chatHistory_handleImageUpload imageResult_handleImageUpload
      result_handleImageUpload image_file_handleImageUpload chatHistory_handleSendMessage
      result_handleSendMessage imageResult_handleSendMessage handleSendMessage_message
      truthy_def)

text \<open>
  The theorem at an upload of a selected file answered by \<open>{confidence: 90}\<close>, and at a
  text submit, with pending text and no file selected, answered by the same.
\<close>

theorem answer_without_label_witness:
  "image_file (initial\<lparr>image_file := Some (File ''arm.png'')\<rparr>) = Some (File ''arm.png'')
   \<and> image_file (initial\<lparr>message := ''itchy''\<rparr>) = None
   \<and> chatHistory (handleImageUpload unused_toString ''blob:1''
       (Resolved 200 (JsonValue \<lparr>response = None, prediction = None, error = None,
          confidence = Some 90\<rparr>))
       (initial\<lparr>image_file := Some (File ''arm.png'')\<rparr>)) = []
   \<and> imageResult (handleImageUpload unused_toString ''blob:1''
       (Resolved 200 (JsonValue \<lparr>response = None, prediction = None, error = None,
          confidence = Some 90\<rparr>))
       (initial\<lparr>image_file := Some (File ''arm.png'')\<rparr>)) = []
   \<and> image_file (handleImageUpload unused_toString ''blob:1''
       (Resolved 200 (JsonValue \<lparr>response = None, prediction = None, error = None,
          confidence = Some 90\<rparr>))
       (initial\<lparr>image_file := Some (File ''arm.png'')\<rparr>)) = None
   \<and> chatHistory (handleSendMessage unused_toString
       (Resolved 200 (JsonValue \<lparr>response = None, prediction = None, error = None,
          confidence = Some 90\<rparr>))
       (initial\<lparr>message := ''itchy''\<rparr>)) = []
   \<and> result (handleSendMessage unused_toString
       (Resolved 200 (JsonValue \<lparr>response = None, prediction = None, error = None,
          confidence = Some 90\<rparr>))
       (initial\<lparr>message := ''itchy''\<rparr>)) = []
   \<and> message (handleSendMessage unused_toString
       (Resolved 200 (JsonValue \<lparr>response = None, prediction = None, error = None,
          confidence = Some 90\<rparr>))
       (initial\<lparr>message := ''itchy''\<rparr>)) = []"
  using answer_without_label [of
      "initial\<lparr>image_file := Some (File ''arm.png'')\<rparr>"
      "File ''arm.png''"
      "\<lparr>response = None, prediction = None, error = None, confidence = Some 90\<rparr>"
      "\<lparr>response = None, prediction = None, error = None, confidence = Some 90\<rparr>"
      unused_toString "''blob:1''" 200 "initial\<lparr>message := ''itchy''\<rparr>"]
  by (simp add: initial_def)

end
